theory Spec2Isabelle
  imports
    Complex_Main
    "HOL-Library.Char_ord"
    "HOL-Library.List_Lexorder"
    "HOL-Library.Product_Lexorder"
    "HOL-Library.AList"
begin

section \<open>Python strings\<close>

text \<open>
  A Python \<^verbatim>\<open>str\<close> is modelled as a \<^typ>\<open>string\<close> of ASCII characters. The
  functions below are the string methods that \<^verbatim>\<open>scripts/compare-repos.py\<close> calls.
  Strings are ordered as Python orders them: lexicographically by character code.
\<close>

definition is_space :: "char \<Rightarrow> bool" where
  \<comment> \<open>\<^verbatim>\<open>str.isspace\<close> on one ASCII character: TAB, LF, VT, FF, CR, FS, GS, RS, US, SPACE\<close>
  "is_space c \<longleftrightarrow>
     c \<in> set [CHR 0x09, CHR 0x0A, CHR 0x0B, CHR 0x0C, CHR 0x0D,
              CHR 0x1C, CHR 0x1D, CHR 0x1E, CHR 0x1F, CHR 0x20]"

definition lower_char :: "char \<Rightarrow> char" where
  "lower_char c =
     (if CHR ''A'' \<le> c \<and> c \<le> CHR ''Z'' then char_of (of_char c + (32::nat)) else c)"

definition upper_char :: "char \<Rightarrow> char" where
  "upper_char c =
     (if CHR ''a'' \<le> c \<and> c \<le> CHR ''z'' then char_of (of_char c - (32::nat)) else c)"

definition lower :: "string \<Rightarrow> string" where
  \<comment> \<open>\<^verbatim>\<open>s.lower()\<close>\<close>
  "lower s = map lower_char s"

definition replace_chr :: "char \<Rightarrow> char \<Rightarrow> string \<Rightarrow> string" where
  \<comment> \<open>\<^verbatim>\<open>s.replace(a, b)\<close> for one-character \<^verbatim>\<open>a\<close> and \<^verbatim>\<open>b\<close>\<close>
  "replace_chr a b s = map (\<lambda>c. if c = a then b else c) s"

fun split_ws_aux :: "string \<Rightarrow> string \<Rightarrow> string list" where
  "split_ws_aux w [] = (if w = [] then [] else [rev w])"
| "split_ws_aux w (c # cs) =
     (if is_space c then (if w = [] then split_ws_aux [] cs else rev w # split_ws_aux [] cs)
      else split_ws_aux (c # w) cs)"

definition split_ws :: "string \<Rightarrow> string list" where
  \<comment> \<open>\<^verbatim>\<open>s.split()\<close>: the maximal runs of non-whitespace characters\<close>
  "split_ws s = split_ws_aux [] s"

fun split_on_aux :: "char \<Rightarrow> string \<Rightarrow> string \<Rightarrow> string list" where
  "split_on_aux sep w [] = [rev w]"
| "split_on_aux sep w (c # cs) =
     (if c = sep then rev w # split_on_aux sep [] cs else split_on_aux sep (c # w) cs)"

definition split_on :: "char \<Rightarrow> string \<Rightarrow> string list" where
  \<comment> \<open>\<^verbatim>\<open>s.split(sep)\<close> for a one-character separator: empty pieces are kept\<close>
  "split_on sep s = split_on_aux sep [] s"

definition strip_ws :: "string \<Rightarrow> string" where
  \<comment> \<open>\<^verbatim>\<open>s.strip()\<close>\<close>
  "strip_ws s = rev (dropWhile is_space (rev (dropWhile is_space s)))"

definition strip_chr :: "char \<Rightarrow> string \<Rightarrow> string" where
  \<comment> \<open>\<^verbatim>\<open>s.strip(ch)\<close> for a one-character \<^verbatim>\<open>ch\<close>: every leading and trailing \<^verbatim>\<open>ch\<close> goes\<close>
  "strip_chr ch s = rev (dropWhile (\<lambda>c. c = ch) (rev (dropWhile (\<lambda>c. c = ch) s)))"

definition partition_chr :: "char \<Rightarrow> string \<Rightarrow> string \<times> string" where
  \<comment> \<open>\<^verbatim>\<open>head, _, tail = s.partition(ch)\<close>: split at the first \<^verbatim>\<open>ch\<close>\<close>
  "partition_chr ch s = (takeWhile (\<lambda>c. c \<noteq> ch) s, drop 1 (dropWhile (\<lambda>c. c \<noteq> ch) s))"

fun join :: "string \<Rightarrow> string list \<Rightarrow> string" where
  \<comment> \<open>\<^verbatim>\<open>sep.join(xs)\<close>\<close>
  "join sep [] = []"
| "join sep [x] = x"
| "join sep (x # y # ys) = x @ sep @ join sep (y # ys)"

section \<open>Errors and numbers\<close>

text \<open>
  Every exception the modelled code can raise is a value of \<open>error\<close>. Python floats
  are modelled as exact rationals: \<^verbatim>\<open>0.6\<close> is \<open>6/10\<close>, and \<^verbatim>\<open>a / b\<close> is the exact
  quotient, raising \<^verbatim>\<open>ZeroDivisionError\<close> on a zero divisor.
\<close>

datatype error =
    KeyError string
  | ZeroDivisionError
  | TypeError
  | JSONDecodeError
  | IllTyped string

definition truediv :: "rat \<Rightarrow> rat \<Rightarrow> error + rat" where
  "truediv a b = (if b = 0 then Inl ZeroDivisionError else Inr (a / b))"

section \<open>Data structures\<close>

record Component =
  kind :: string
  name :: string
  repo :: string
  path :: string
  description :: string
  keywords_list :: "string list"
  frontmatter :: "(string \<times> string) list"
  line_count :: int
  has_references :: bool
  reference_files :: "string list"

record Match =
  ours :: Component
  theirs :: Component
  similarity :: rat
  size_ratio :: rat

section \<open>Regular expressions\<close>

text \<open>
  The three patterns of the script are run by a backtracking matcher with the semantics
  of Python's \<^verbatim>\<open>re\<close> module: quantifiers try the longest (greedy) or shortest (lazy)
  repetition first and give characters back one at a time, alternatives are tried in
  order, and the first successful path is the match. Only what the three patterns use is
  modelled: quantifiers over one-character atoms, one capture group, and the anchors.
\<close>

abbreviation nl :: char where "nl \<equiv> CHR 0x0A"
abbreviation cr :: char where "cr \<equiv> CHR 0x0D"
abbreviation dquote :: char where "dquote \<equiv> CHR 0x22"
abbreviation squote :: char where "squote \<equiv> CHR 0x27"

record flags =
  ignorecase :: bool
  multiline :: bool
  dotall :: bool

datatype atom =
    Chr char
  | Space
  | Dot
  | AnyOf "atom list"

fun atom_matches :: "flags \<Rightarrow> atom \<Rightarrow> char \<Rightarrow> bool" where
  "atom_matches f (Chr a) c = (if ignorecase f then lower_char a = lower_char c else a = c)"
| "atom_matches f Space c = is_space c"
| "atom_matches f Dot c = (dotall f \<or> c \<noteq> nl)"
| "atom_matches f (AnyOf as) c = list_ex (\<lambda>a. atom_matches f a c) as"

datatype greed = Greedy | Lazy

datatype tok =
    One atom
  | Star greed atom
  | Plus greed atom
  | Opt atom
  | Alt "string list"
  | Bos
  | Bol
  | Eol
  | GOpen
  | GClose

definition lit :: "string \<Rightarrow> tok list" where
  \<comment> \<open>a literal string inside a pattern\<close>
  "lit w = map (\<lambda>c. One (Chr c)) w"

datatype capture = Unopened | Capturing string | Captured string

fun push :: "capture \<Rightarrow> char \<Rightarrow> capture" where
  "push (Capturing acc) c = Capturing (c # acc)"
| "push cap c = cap"

fun group1 :: "capture \<Rightarrow> string" where
  "group1 (Captured g) = g"
| "group1 cap = []"

fun tok_weight :: "tok \<Rightarrow> nat" where
  "tok_weight (Plus g a) = 3"
| "tok_weight (Alt ws) = Suc (sum_list (map (\<lambda>w. Suc (length w)) ws))"
| "tok_weight t = 1"

text \<open>
  \<open>rmatch f ts cap prev s\<close> matches the pattern \<open>ts\<close> at the current position: \<open>prev\<close>
  is the character before it (\<open>None\<close> at the start of the text) and \<open>s\<close> the text from it
  on. The result is group 1, the last character before the end of the match, and the text
  after the match.
\<close>

function (sequential) rmatch ::
  "flags \<Rightarrow> tok list \<Rightarrow> capture \<Rightarrow> char option \<Rightarrow> string \<Rightarrow> (string \<times> char option \<times> string) option"
where
  "rmatch f [] cap prev s = Some (group1 cap, prev, s)"
| "rmatch f (One a # ts) cap prev [] = None"
| "rmatch f (One a # ts) cap prev (c # cs) =
     (if atom_matches f a c then rmatch f ts (push cap c) (Some c) cs else None)"
| "rmatch f (Star g a # ts) cap prev [] = rmatch f ts cap prev []"
| "rmatch f (Star Greedy a # ts) cap prev (c # cs) =
     (if atom_matches f a c then
        (case rmatch f (Star Greedy a # ts) (push cap c) (Some c) cs of
           Some r \<Rightarrow> Some r
         | None \<Rightarrow> rmatch f ts cap prev (c # cs))
      else rmatch f ts cap prev (c # cs))"
| "rmatch f (Star Lazy a # ts) cap prev (c # cs) =
     (case rmatch f ts cap prev (c # cs) of
        Some r \<Rightarrow> Some r
      | None \<Rightarrow>
          (if atom_matches f a c then rmatch f (Star Lazy a # ts) (push cap c) (Some c) cs
           else None))"
| "rmatch f (Plus g a # ts) cap prev s = rmatch f (One a # Star g a # ts) cap prev s"
| "rmatch f (Opt a # ts) cap prev [] = rmatch f ts cap prev []"
| "rmatch f (Opt a # ts) cap prev (c # cs) =
     (if atom_matches f a c then
        (case rmatch f ts (push cap c) (Some c) cs of
           Some r \<Rightarrow> Some r
         | None \<Rightarrow> rmatch f ts cap prev (c # cs))
      else rmatch f ts cap prev (c # cs))"
| "rmatch f (Alt [] # ts) cap prev s = None"
| "rmatch f (Alt (w # ws) # ts) cap prev s =
     (case rmatch f (lit w @ ts) cap prev s of
        Some r \<Rightarrow> Some r
      | None \<Rightarrow> rmatch f (Alt ws # ts) cap prev s)"
| "rmatch f (Bos # ts) cap prev s = (if prev = None then rmatch f ts cap prev s else None)"
| "rmatch f (Bol # ts) cap prev s =
     (if prev = None \<or> (multiline f \<and> prev = Some nl) then rmatch f ts cap prev s else None)"
| "rmatch f (Eol # ts) cap prev s =
     (if s = [] \<or> s = [nl] \<or> (multiline f \<and> take 1 s = [nl]) then rmatch f ts cap prev s
      else None)"
| "rmatch f (GOpen # ts) cap prev s = rmatch f ts (Capturing []) prev s"
| "rmatch f (GClose # ts) cap prev s =
     rmatch f ts (case cap of Capturing acc \<Rightarrow> Captured (rev acc) | _ \<Rightarrow> cap) prev s"
  by pat_completeness auto
termination
proof -
  have weight_lit: "sum_list (map tok_weight (lit w)) = length w" for w
    by (induction w) (simp_all add: lit_def)
  show ?thesis
    by (relation "measures [\<lambda>(f, ts, cap, prev, s). length s,
                            \<lambda>(f, ts, cap, prev, s). sum_list (map tok_weight ts)]")
       (auto simp: weight_lit)
qed

definition re_match :: "flags \<Rightarrow> tok list \<Rightarrow> string \<Rightarrow> string option" where
  \<comment> \<open>\<^verbatim>\<open>m = pattern.match(text)\<close>, giving \<^verbatim>\<open>m.group(1)\<close>\<close>
  "re_match f re text = map_option fst (rmatch f re Unopened None text)"

text \<open>
  \<^verbatim>\<open>re.finditer\<close>: the matches from left to right, each search starting where the last
  match ended; the result lists \<^verbatim>\<open>m.group(1)\<close> of each. After a match of no
  characters the search moves on by one character (none of the patterns here has such a
  match).
\<close>

function finditer :: "flags \<Rightarrow> tok list \<Rightarrow> char option \<Rightarrow> string \<Rightarrow> string list" where
  "finditer f re prev s =
     (case rmatch f re Unopened prev s of
        Some (g, prev', rest) \<Rightarrow>
          (if length rest < length s then g # finditer f re prev' rest
           else g # (case s of [] \<Rightarrow> [] | c # cs \<Rightarrow> finditer f re (Some c) cs))
      | None \<Rightarrow> (case s of [] \<Rightarrow> [] | c # cs \<Rightarrow> finditer f re (Some c) cs))"
  by pat_completeness auto
termination
  by (relation "measure (\<lambda>(f, re, prev, s). length s)") auto

declare finditer.simps [simp del]

section \<open>YAML frontmatter parser\<close>

definition FM_RE :: "tok list" where
  \<comment> \<open>\<^verbatim>\<open>_FM_RE = re.compile(r"\A---\s*\n(.*?\n)---\s*\n", re.DOTALL)\<close>\<close>
  "FM_RE =
     [Bos] @ lit ''---'' @ [Star Greedy Space, One (Chr nl),
       GOpen, Star Lazy Dot, One (Chr nl), GClose]
     @ lit ''---'' @ [Star Greedy Space, One (Chr nl)]"

definition FM_flags :: flags where
  "FM_flags = \<lparr>ignorecase = False, multiline = False, dotall = True\<rparr>"

definition is_linebreak :: "char \<Rightarrow> bool" where
  \<comment> \<open>the ASCII line boundaries of \<^verbatim>\<open>str.splitlines\<close>: LF, VT, FF, CR, FS, GS, RS\<close>
  "is_linebreak c \<longleftrightarrow>
     c \<in> set [CHR 0x0A, CHR 0x0B, CHR 0x0C, CHR 0x0D, CHR 0x1C, CHR 0x1D, CHR 0x1E]"

fun splitlines_aux :: "string \<Rightarrow> string \<Rightarrow> string list" where
  "splitlines_aux w [] = (if w = [] then [] else [rev w])"
| "splitlines_aux w [c] = (if is_linebreak c then [rev w] else [rev (c # w)])"
| "splitlines_aux w (c # d # cs) =
     (if c = cr \<and> d = nl then rev w # splitlines_aux [] cs
      else if is_linebreak c then rev w # splitlines_aux [] (d # cs)
      else splitlines_aux (c # w) (d # cs))"

definition splitlines :: "string \<Rightarrow> string list" where
  \<comment> \<open>\<^verbatim>\<open>s.splitlines()\<close>\<close>
  "splitlines s = splitlines_aux [] s"

definition starts_with :: "string \<Rightarrow> string \<Rightarrow> bool" where
  \<comment> \<open>\<^verbatim>\<open>s.startswith(p)\<close>\<close>
  "starts_with p s \<longleftrightarrow> take (length p) s = p"

definition dict_set :: "'k \<Rightarrow> 'v \<Rightarrow> ('k \<times> 'v) list \<Rightarrow> ('k \<times> 'v) list" where
  \<comment> \<open>\<^verbatim>\<open>d[k] = v\<close> on a dict kept in insertion order\<close>
  "dict_set k v d = AList.update k v d"

definition fm_line :: "(string \<times> string) list \<Rightarrow> string \<Rightarrow> (string \<times> string) list" where
  \<comment> \<open>the body of the loop over the lines of the block\<close>
  "fm_line result line0 =
     (let line = strip_ws line0
      in if line = [] \<or> starts_with ''#'' line then result
         else if CHR '':'' \<in> set line then
           (let (key, val0) = partition_chr (CHR '':'') line;
                val = strip_chr squote (strip_chr dquote (strip_ws val0))
            in dict_set (strip_ws key) val result)
         else result)"

definition parse_frontmatter :: "string \<Rightarrow> (string \<times> string) list" where
  "parse_frontmatter text =
     (case re_match FM_flags FM_RE text of
        None \<Rightarrow> []
      | Some body \<Rightarrow> foldl fm_line [] (splitlines body))"

section \<open>Keyword extraction\<close>

definition heading_re :: "tok list" where
  \<comment> \<open>\<^verbatim>\<open>r"^##\s+(.+)$"\<close> with \<^verbatim>\<open>re.MULTILINE\<close>\<close>
  "heading_re = [Bol] @ lit ''##'' @ [Plus Greedy Space, GOpen, Plus Greedy Dot, GClose, Eol]"

definition heading_flags :: flags where
  "heading_flags = \<lparr>ignorecase = False, multiline = True, dotall = False\<rparr>"

definition trigger_re :: "tok list" where
  \<comment> \<open>\<^verbatim>\<open>r"(?:trigger|keyword|pattern)[s]?[:\s]+(.+)"\<close> with \<^verbatim>\<open>re.IGNORECASE\<close>\<close>
  "trigger_re =
     [Alt [''trigger'', ''keyword'', ''pattern''], Opt (AnyOf [Chr (CHR ''s'')]),
      Plus Greedy (AnyOf [Chr (CHR '':''), Space]), GOpen, Plus Greedy Dot, GClose]"

definition trigger_flags :: flags where
  "trigger_flags = \<lparr>ignorecase = True, multiline = False, dotall = False\<rparr>"

definition is_lower_alnum :: "char \<Rightarrow> bool" where
  \<comment> \<open>the class \<^verbatim>\<open>[a-z0-9]\<close>\<close>
  "is_lower_alnum c \<longleftrightarrow>
     (CHR ''a'' \<le> c \<and> c \<le> CHR ''z'') \<or> (CHR ''0'' \<le> c \<and> c \<le> CHR ''9'')"

definition name_part :: "string \<Rightarrow> string set \<Rightarrow> string set" where
  \<comment> \<open>the body of the loop over the parts of the name\<close>
  "name_part part kw = (if length part > 2 then insert (lower part) kw else kw)"

definition heading_word :: "string \<Rightarrow> string set \<Rightarrow> string set" where
  \<comment> \<open>the body of the loop over the words of one heading\<close>
  "heading_word word0 kw =
     (let word = filter is_lower_alnum word0
      in if length word > 3 then insert word kw else kw)"

definition trigger_word :: "string \<Rightarrow> string set \<Rightarrow> string set" where
  \<comment> \<open>the body of the loop over the comma-separated pieces of one trigger line\<close>
  "trigger_word word0 kw =
     (let word = lower (strip_chr squote (strip_chr dquote (strip_ws word0)))
      in if 2 < length word \<and> length word < 30 then insert word kw else kw)"

definition extract_keywords :: "string \<Rightarrow> string \<Rightarrow> string list" where
  "extract_keywords text nm =
     (let kw0 = fold name_part (split_ws (replace_chr (CHR ''-'') (CHR '' '') nm)) {};
          kw1 = fold (\<lambda>g. fold heading_word (split_ws (lower (strip_ws g))))
                  (finditer heading_flags heading_re None text) kw0;
          kw2 = fold (\<lambda>g. fold trigger_word (split_on (CHR '','') g))
                  (finditer trigger_flags trigger_re None text) kw1
      in sorted_list_of_set kw2)"

section \<open>Similarity matching\<close>

definition name_words :: "string \<Rightarrow> string set" where
  \<comment> \<open>\<^verbatim>\<open>set(a.replace("-", " ").replace("_", " ").lower().split())\<close>\<close>
  "name_words a =
     set (split_ws (lower (replace_chr (CHR ''_'') (CHR '' '') (replace_chr (CHR ''-'') (CHR '' '') a))))"

definition name_similarity :: "string \<Rightarrow> string \<Rightarrow> error + rat" where
  "name_similarity a b =
     (let words_a = name_words a;
          words_b = name_words b
      in if words_a = {} \<or> words_b = {} then Inr 0
         else truediv (of_nat (card (words_a \<inter> words_b))) (of_nat (card (words_a \<union> words_b))))"

definition keyword_similarity :: "string list \<Rightarrow> string list \<Rightarrow> error + rat" where
  "keyword_similarity a b =
     (let set_a = set a;
          set_b = set b
      in if set_a = {} \<or> set_b = {} then Inr 0
         else truediv (of_nat (card (set_a \<inter> set_b))) (of_nat (card (set_a \<union> set_b))))"

definition combined_similarity :: "Component \<Rightarrow> Component \<Rightarrow> error + rat" where
  "combined_similarity us them =
     (case name_similarity (name us) (name them) of
        Inl e \<Rightarrow> Inl e
      | Inr ns \<Rightarrow>
          (case keyword_similarity (keywords_list us) (keywords_list them) of
             Inl e \<Rightarrow> Inl e
           | Inr ks \<Rightarrow>
               (let ns' = (if name us = name them then 1 else ns)
                in Inr (6 / 10 * ns' + 4 / 10 * ks))))"

section \<open>Comparison engine\<close>








section \<open>Cache for incremental runs\<close>

text \<open>
  The cache file holds \<^verbatim>\<open>json.dumps(data)\<close>, and \<^verbatim>\<open>json.loads\<close> reads it back: a file is
  modelled by the JSON value its text denotes, or as text that is not JSON. The file
  system is a map from paths to files. A \<open>Component\<close> of the model is typed, so a record
  whose value for a field has another type than the field's is reported as \<open>IllTyped\<close>,
  after the \<^verbatim>\<open>KeyError\<close> checks; Python would build the component with that value.
\<close>

datatype json =
    JNull
  | JBool bool
  | JInt int
  | JStr string
  | JArr "json list"
  | JObj "(string \<times> json) list"

datatype content = Json_text json | Other_text

type_synonym files = "string \<Rightarrow> content option"

definition bind_err :: "error + 'a \<Rightarrow> ('a \<Rightarrow> error + 'b) \<Rightarrow> error + 'b" where
  "bind_err x f = (case x of Inl e \<Rightarrow> Inl e | Inr a \<Rightarrow> f a)"

definition component_record :: "Component \<Rightarrow> json" where
  "component_record c =
     JObj [(''kind'', JStr (kind c)),
           (''name'', JStr (name c)),
           (''repo'', JStr (repo c)),
           (''path'', JStr (path c)),
           (''description'', JStr (description c)),
           (''keywords'', JArr (map JStr (keywords_list c))),
           (''line_count'', JInt (line_count c)),
           (''has_references'', JBool (has_references c)),
           (''reference_files'', JArr (map JStr (reference_files c)))]"

definition save_catalog :: "Component list \<Rightarrow> string \<Rightarrow> files \<Rightarrow> files" where
  "save_catalog components cache_path fs =
     fs(cache_path \<mapsto> Json_text (JArr (map component_record components)))"

definition subscript :: "(string \<times> json) list \<Rightarrow> string \<Rightarrow> error + json" where
  \<comment> \<open>\<^verbatim>\<open>d[key]\<close>\<close>
  "subscript d key = (case map_of d key of None \<Rightarrow> Inl (KeyError key) | Some v \<Rightarrow> Inr v)"

definition get_or :: "(string \<times> json) list \<Rightarrow> string \<Rightarrow> json \<Rightarrow> json" where
  \<comment> \<open>\<^verbatim>\<open>d.get(key, default)\<close>\<close>
  "get_or d key dflt = (case map_of d key of None \<Rightarrow> dflt | Some v \<Rightarrow> v)"

fun as_str :: "string \<Rightarrow> json \<Rightarrow> error + string" where
  "as_str key (JStr s) = Inr s"
| "as_str key v = Inl (IllTyped key)"

fun as_int :: "string \<Rightarrow> json \<Rightarrow> error + int" where
  "as_int key (JInt i) = Inr i"
| "as_int key v = Inl (IllTyped key)"

fun as_bool :: "string \<Rightarrow> json \<Rightarrow> error + bool" where
  "as_bool key (JBool b) = Inr b"
| "as_bool key v = Inl (IllTyped key)"

fun str_items :: "string \<Rightarrow> json list \<Rightarrow> error + string list" where
  "str_items key [] = Inr []"
| "str_items key (JStr s # vs) = bind_err (str_items key vs) (\<lambda>ss. Inr (s # ss))"
| "str_items key (v # vs) = Inl (IllTyped key)"

fun as_str_list :: "string \<Rightarrow> json \<Rightarrow> error + string list" where
  "as_str_list key (JArr vs) = str_items key vs"
| "as_str_list key v = Inl (IllTyped key)"

definition make_component ::
  "json \<Rightarrow> json \<Rightarrow> json \<Rightarrow> json \<Rightarrow> json \<Rightarrow> json \<Rightarrow> json \<Rightarrow> json \<Rightarrow> json \<Rightarrow> error + Component"
where
  "make_component v_kind v_name v_repo v_path v_description v_keywords v_line_count
       v_has_references v_reference_files =
     bind_err (as_str ''kind'' v_kind) (\<lambda>k.
     bind_err (as_str ''name'' v_name) (\<lambda>n.
     bind_err (as_str ''repo'' v_repo) (\<lambda>r.
     bind_err (as_str ''path'' v_path) (\<lambda>p.
     bind_err (as_str ''description'' v_description) (\<lambda>d.
     bind_err (as_str_list ''keywords'' v_keywords) (\<lambda>kws.
     bind_err (as_int ''line_count'' v_line_count) (\<lambda>lc.
     bind_err (as_bool ''has_references'' v_has_references) (\<lambda>hr.
     bind_err (as_str_list ''reference_files'' v_reference_files) (\<lambda>rfs.
       Inr \<lparr>kind = k, name = n, repo = r, path = p, description = d, keywords_list = kws,
            frontmatter = [], line_count = lc, has_references = hr,
            reference_files = rfs\<rparr>)))))))))"

fun component_of :: "json \<Rightarrow> error + Component" where
  "component_of (JObj d) =
     bind_err (subscript d ''kind'') (\<lambda>v_kind.
     bind_err (subscript d ''name'') (\<lambda>v_name.
     bind_err (subscript d ''repo'') (\<lambda>v_repo.
     bind_err (subscript d ''path'') (\<lambda>v_path.
       make_component v_kind v_name v_repo v_path
         (get_or d ''description'' (JStr []))
         (get_or d ''keywords'' (JArr []))
         (get_or d ''line_count'' (JInt 0))
         (get_or d ''has_references'' (JBool False))
         (get_or d ''reference_files'' (JArr []))))))"
| "component_of v = Inl TypeError"

fun load_all :: "json list \<Rightarrow> error + Component list" where
  "load_all [] = Inr []"
| "load_all (d # ds) =
     bind_err (component_of d) (\<lambda>c. bind_err (load_all ds) (\<lambda>cs. Inr (c # cs)))"

definition load_catalog :: "string \<Rightarrow> files \<Rightarrow> error + Component list" where
  "load_catalog cache_path fs =
     (case fs cache_path of
        None \<Rightarrow> Inr []
      | Some Other_text \<Rightarrow> Inl JSONDecodeError
      | Some (Json_text dat) \<Rightarrow>
          (case dat of
             JArr ds \<Rightarrow> load_all ds
           | JObj kv \<Rightarrow> (if kv = [] then Inr [] else Inl TypeError)
           | JStr s \<Rightarrow> (if s = [] then Inr [] else Inl TypeError)
           | _ \<Rightarrow> Inl TypeError))"

section \<open>Report generation\<close>

function show_nat :: "nat \<Rightarrow> string" where
  "show_nat n =
     (if n < 10 then [char_of (48 + n)]
      else show_nat (n div 10) @ [char_of (48 + n mod 10)])"
  by pat_completeness auto
termination
  by (relation "measure (\<lambda>n. n)") auto

declare show_nat.simps [simp del]

definition show_int :: "int \<Rightarrow> string" where
  \<comment> \<open>\<^verbatim>\<open>f"{i}"\<close> for an int\<close>
  "show_int i = (if i < 0 then CHR ''-'' # show_nat (nat (- i)) else show_nat (nat i))"

definition is_alpha :: "char \<Rightarrow> bool" where
  "is_alpha c \<longleftrightarrow>
     (CHR ''A'' \<le> c \<and> c \<le> CHR ''Z'') \<or> (CHR ''a'' \<le> c \<and> c \<le> CHR ''z'')"

fun title_aux :: "bool \<Rightarrow> string \<Rightarrow> string" where
  "title_aux prev [] = []"
| "title_aux prev (c # cs) =
     (if is_alpha c then (if prev then lower_char c else upper_char c) # title_aux True cs
      else c # title_aux False cs)"

definition title :: "string \<Rightarrow> string" where
  \<comment> \<open>\<^verbatim>\<open>s.title()\<close>\<close>
  "title s = title_aux False s"

definition kept_kind :: "string option \<Rightarrow> string \<Rightarrow> bool" where
  \<comment> \<open>\<^verbatim>\<open>not filter_kind or kind == filter_kind\<close>; \<^verbatim>\<open>None\<close> and the empty string are falsy\<close>
  "kept_kind filter_kind k \<longleftrightarrow>
     filter_kind = None \<or> filter_kind = Some [] \<or> filter_kind = Some k"

definition inventory_row :: "Component \<Rightarrow> string" where
  "inventory_row c =
     (let kw = join '', '' (take 5 (keywords_list c));
          ref = (if has_references c then ''yes'' else ''-'')
      in ''| '' @ name c @ '' | '' @ show_int (line_count c) @ '' | '' @ ref @ '' | '' @ kw @ '' |'')"

definition inventory_section :: "Component list \<Rightarrow> string \<Rightarrow> string list" where
  \<comment> \<open>the body of the loop over \<^verbatim>\<open>["skill", "agent"]\<close>: the lines it appends\<close>
  "inventory_section our_filtered k =
     (let items = filter (\<lambda>c. kind c = k) our_filtered
      in if items = [] then []
         else [''### '' @ title k @ ''s ('' @ show_nat (length items) @ '')'',
               '''',
               ''| Name | Lines | References | Keywords (sample) |'',
               ''|------|------:|:----------:|-------------------|'']
              @ map inventory_row (sort_key name items)
              @ [''''])"

definition repo_summary :: "string option \<Rightarrow> string \<times> Component list \<Rightarrow> string" where
  "repo_summary filter_kind item =
     (let (repo_name, components) = item;
          filtered = filter (\<lambda>c. kept_kind filter_kind (kind c)) components;
          skills = filter (\<lambda>c. kind c = ''skill'') filtered;
          agents = filter (\<lambda>c. kind c = ''agent'') filtered
      in ''- **'' @ repo_name @ ''**: '' @ show_nat (length skills) @ '' skills, ''
         @ show_nat (length agents) @ '' agents'')"

fun match_rows ::
  "(nat \<Rightarrow> rat \<Rightarrow> string) \<Rightarrow> (string \<times> string \<times> string) set \<Rightarrow> Match list \<Rightarrow> string list"
where
  "match_rows fmt seen [] = []"
| "match_rows fmt seen (m # ms) =
     (let key = (name (ours m), name (theirs m), repo (theirs m))
      in if key \<in> seen then match_rows fmt seen ms
         else (''| '' @ name (ours m) @ '' | '' @ name (theirs m) @ '' | '' @ repo (theirs m)
               @ '' | '' @ fmt 2 (similarity m) @ '' | '' @ show_int (line_count (ours m))
               @ '' | '' @ show_int (line_count (theirs m))
               @ '' | '' @ fmt 1 (size_ratio m) @ ''x |'')
              # match_rows fmt (insert key seen) ms)"

definition high_match_lines :: "(nat \<Rightarrow> rat \<Rightarrow> string) \<Rightarrow> Match \<Rightarrow> string list" where
  "high_match_lines fmt m =
     [''- **'' @ name (ours m) @ ''** vs **'' @ name (theirs m) @ ''** ('' @ repo (theirs m) @ '')'',
      ''  - Similarity: '' @ fmt 2 (similarity m),
      ''  - Size: '' @ show_int (line_count (ours m)) @ '' vs '' @ show_int (line_count (theirs m))
        @ '' lines ('' @ fmt 1 (size_ratio m) @ ''x)'',
      ''  - Our path: '' @ [CHR 0x60] @ path (ours m) @ [CHR 0x60],
      ''  - Their path: '' @ [CHR 0x60] @ path (theirs m) @ [CHR 0x60]]
     @ (if description (ours m) \<noteq> [] \<and> description (theirs m) \<noteq> [] then
          [''  - Our desc: '' @ take 100 (description (ours m)),
           ''  - Their desc: '' @ take 100 (description (theirs m))]
        else [])
     @ ['''']"

fun setdefault_append :: "string \<Rightarrow> Component \<Rightarrow> (string \<times> Component list) list \<Rightarrow> (string \<times> Component list) list" where
  \<comment> \<open>\<^verbatim>\<open>by_repo.setdefault(key, []).append(c)\<close>\<close>
  "setdefault_append key c [] = [(key, [c])]"
| "setdefault_append key c ((k, cs) # rest) =
     (if k = key then (k, cs @ [c]) # rest else (k, cs) # setdefault_append key c rest)"

definition unmatched_row :: "Component \<Rightarrow> string" where
  "unmatched_row c =
     (let desc = (if length (description c) > 80 then take 80 (description c) @ ''...''
                  else description c)
      in ''| '' @ kind c @ '' | '' @ name c @ '' | '' @ show_int (line_count c) @ '' | '' @ desc @ '' |'')"

definition unmatched_section :: "string \<times> Component list \<Rightarrow> string list" where
  "unmatched_section item =
     (let (repo_name, components) = item
      in [''### '' @ repo_name,
          '''',
          ''| Kind | Name | Lines | Description |'',
          ''|------|------|------:|-------------|'']
         @ map unmatched_row (sort_key (\<lambda>x. (kind x, name x)) components)
         @ [''''])"

text \<open>
  \<open>report_lines\<close> is the list \<^verbatim>\<open>lines\<close> at the end of \<^verbatim>\<open>generate_report\<close>. The clock's
  reading \<open>now\<close> and Python's fixed-point float format \<open>fmt\<close> (\<open>fmt 2 x\<close> for
  \<^verbatim>\<open>f"{x:.2f}"\<close>) are parameters. \<open>external_by_repo\<close> is the dict as its list of items.
\<close>

definition report_lines ::
  "string \<Rightarrow> (nat \<Rightarrow> rat \<Rightarrow> string) \<Rightarrow> Component list \<Rightarrow> (string \<times> Component list) list
   \<Rightarrow> Match list \<Rightarrow> Component list \<Rightarrow> string option \<Rightarrow> string list"
where
  "report_lines now fmt our_components external_by_repo matches unmatched filter_kind =
     (let our_filtered = filter (\<lambda>c. kept_kind filter_kind (kind c)) our_components;
          filtered_matches = filter (\<lambda>m. kept_kind filter_kind (kind (ours m))) matches;
          high_matches = filter (\<lambda>m. similarity m \<ge> 5 / 10) filtered_matches;
          filtered_unmatched = filter (\<lambda>c. kept_kind filter_kind (kind c)) unmatched;
          by_repo = fold (\<lambda>c. setdefault_append (repo c) c) filtered_unmatched [];
          total_ext = sum_list (map (\<lambda>v. length v) (map snd external_by_repo))
      in [''# Repo Comparison Report'',
          '''',
          ''Generated: '' @ now,
          '''',
          ''## Our Plugin Inventory'',
          '''']
         @ concat (map (inventory_section our_filtered) [''skill'', ''agent''])
         @ [''## External Repos Scanned'',
            '''']
         @ map (repo_summary filter_kind) (sort_key fst external_by_repo)
         @ ['''']
         @ [''## Overlapping Components ('' @ show_nat (length filtered_matches) @ '' matches)'',
            '''']
         @ (if filtered_matches \<noteq> [] then
              [''| Ours | Theirs | Repo | Sim | Our Lines | Their Lines | Ratio |'',
               ''|------|--------|------|----:|----------:|------------:|------:|'']
              @ match_rows fmt {} filtered_matches
              @ ['''']
            else [])
         @ (if high_matches \<noteq> [] then
              [''### High-Similarity Matches (>=0.50)'',
               '''',
               ''These are likely the same or very similar components. Compare in detail.'',
               '''']
              @ concat (map (high_match_lines fmt) high_matches)
            else [])
         @ [''## Unmatched External Components ('' @ show_nat (length filtered_unmatched) @ '' items)'',
            '''',
            ''These exist in external repos but have no counterpart in our plugin.'',
            '''']
         @ (if filtered_unmatched \<noteq> [] then
              concat (map unmatched_section (sort_key fst by_repo))
            else [])
         @ [''## Statistics'',
            '''',
            ''- Our components: '' @ show_nat (length our_filtered),
            ''- External components scanned: '' @ show_nat total_ext,
            ''- Overlapping matches: '' @ show_nat (length filtered_matches),
            ''- High-similarity (>=0.50): '' @ show_nat (length high_matches),
            ''- Unmatched external: '' @ show_nat (length filtered_unmatched),
            ''''])"

definition generate_report ::
  "string \<Rightarrow> (nat \<Rightarrow> rat \<Rightarrow> string) \<Rightarrow> Component list \<Rightarrow> (string \<times> Component list) list
   \<Rightarrow> Match list \<Rightarrow> Component list \<Rightarrow> string option \<Rightarrow> string"
where
  "generate_report now fmt our_components external_by_repo matches unmatched filter_kind =
     join [nl] (report_lines now fmt our_components external_by_repo matches unmatched filter_kind)"

section \<open>Notions used in the statements\<close>

text \<open>
  Example data, and the mathematical counterparts of the code that the properties are
  stated with or proved through.
\<close>

definition component :: "string \<Rightarrow> string \<Rightarrow> string list \<Rightarrow> Component" where
  \<comment> \<open>\<^verbatim>\<open>Component(kind=k, name=n, repo="r", path="p", keywords=kws)\<close>, the rest defaulted\<close>
  "component k n kws =
     \<lparr>kind = k, name = n, repo = ''r'', path = ''p'', description = [], keywords_list = kws,
      frontmatter = [], line_count = 0, has_references = False, reference_files = []\<rparr>"

definition jaccard :: "'a set \<Rightarrow> 'a set \<Rightarrow> rat" where
  "jaccard A B = (if A = {} \<or> B = {} then 0 else of_nat (card (A \<inter> B)) / of_nat (card (A \<union> B)))"

definition sim_value :: "Component \<Rightarrow> Component \<Rightarrow> rat" where
  "sim_value us them =
     6 / 10 * (if name us = name them then 1 else jaccard (name_words (name us)) (name_words (name them)))
     + 4 / 10 * jaccard (set (keywords_list us)) (set (keywords_list them))"



definition strip_one_layer :: "string \<Rightarrow> string" where
  \<comment> \<open>the reading of claim C9, for comparison with the code: a value that begins and ends
      with the same quote character loses that one pair and nothing more\<close>
  "strip_one_layer v =
     (if 2 \<le> length v \<and> hd v = last v \<and> (hd v = dquote \<or> hd v = squote)
      then butlast (tl v) else v)"

definition fm_key :: "string \<Rightarrow> string option" where
  \<comment> \<open>the key a line of the block assigns, if it assigns one\<close>
  "fm_key row =
     (let line = strip_ws row
      in if line = [] \<or> starts_with ''#'' line \<or> CHR '':'' \<notin> set line then None
         else Some (strip_ws (fst (partition_chr (CHR '':'') line))))"

definition fm_doc :: "string \<Rightarrow> string" where
  \<comment> \<open>a document whose frontmatter block has the lines \<^verbatim>\<open>name: <v>\<close> and \<^verbatim>\<open>other: x\<close>\<close>
  "fm_doc v =
     ''---'' @ [nl] @ ''name: '' @ v @ [nl] @ ''other: x'' @ [nl] @ ''---'' @ [nl] @ ''body''"

definition canonical :: "string set \<Rightarrow> bool" where
  "canonical A \<longleftrightarrow> finite A \<and> (\<forall>w \<in> A. lower w = w)"

definition absent_or :: "(json \<Rightarrow> bool) \<Rightarrow> (string \<times> json) list \<Rightarrow> string \<Rightarrow> bool" where
  "absent_or P d key = (case map_of d key of None \<Rightarrow> True | Some v \<Rightarrow> P v)"

definition is_str :: "json \<Rightarrow> bool" where
  "is_str v = (case v of JStr s \<Rightarrow> True | _ \<Rightarrow> False)"

definition is_int :: "json \<Rightarrow> bool" where
  "is_int v = (case v of JInt i \<Rightarrow> True | _ \<Rightarrow> False)"

definition is_bool :: "json \<Rightarrow> bool" where
  "is_bool v = (case v of JBool b \<Rightarrow> True | _ \<Rightarrow> False)"

definition is_str_list :: "json \<Rightarrow> bool" where
  "is_str_list v = (case v of JArr vs \<Rightarrow> list_all is_str vs | _ \<Rightarrow> False)"

definition old_record :: "(string \<times> json) list" where
  \<comment> \<open>a record that has only the four required keys and a line count\<close>
  "old_record = [(''kind'', JStr ''skill''), (''name'', JStr ''pdf-export''),
                 (''repo'', JStr ''r''), (''path'', JStr ''skills/pdf-export/SKILL.md''),
                 (''line_count'', JInt 12)]"

section \<open>Properties of the similarity engine\<close>

lemma jaccard_bounds:
  assumes "finite A" "finite B"
  shows "0 \<le> jaccard A B \<and> jaccard A B \<le> 1"
proof (cases "A = {} \<or> B = {}")
  case True
  then show ?thesis by (simp add: jaccard_def)
next
  case False
  have fin: "finite (A \<union> B)" using assms by simp
  have "card (A \<inter> B) \<le> card (A \<union> B)"
    by (rule card_mono [OF fin]) blast
  moreover have "0 < card (A \<union> B)"
    using False fin by (simp add: card_gt_0_iff)
  ultimately show ?thesis
    using False by (simp add: jaccard_def)
qed

lemma jaccard_self: "finite A \<Longrightarrow> A \<noteq> {} \<Longrightarrow> jaccard A A = 1"
  by (simp add: jaccard_def)

lemma jaccard_commute: "jaccard A B = jaccard B A"
  by (auto simp: jaccard_def Int_commute Un_commute)

lemma truediv_card:
  assumes "finite A" "finite B" "A \<noteq> {}" "B \<noteq> {}"
  shows "truediv (of_nat (card (A \<inter> B))) (of_nat (card (A \<union> B))) = Inr (jaccard A B)"
proof -
  have "card (A \<union> B) \<noteq> 0" using assms by simp
  then show ?thesis using assms by (simp add: truediv_def jaccard_def)
qed

lemma name_similarity_jaccard: "name_similarity a b = Inr (jaccard (name_words a) (name_words b))"
proof (cases "name_words a = {} \<or> name_words b = {}")
  case True
  then show ?thesis by (auto simp: name_similarity_def jaccard_def)
next
  case False
  have "finite (name_words a)" "finite (name_words b)" by (simp_all add: name_words_def)
  with False show ?thesis
    by (simp add: name_similarity_def truediv_card)
qed

lemma keyword_similarity_jaccard: "keyword_similarity a b = Inr (jaccard (set a) (set b))"
proof (cases "set a = {} \<or> set b = {}")
  case True
  then show ?thesis by (auto simp: keyword_similarity_def jaccard_def)
next
  case False
  then show ?thesis
    by (simp add: keyword_similarity_def truediv_card del: set_empty)
qed

lemma combined_similarity_value: "combined_similarity us them = Inr (sim_value us them)"
  by (simp add: combined_similarity_def name_similarity_jaccard keyword_similarity_jaccard
      sim_value_def)

lemma sim_value_bounds: "0 \<le> sim_value us them \<and> sim_value us them \<le> 1"
proof -
  let ?n = "if name us = name them then 1 else jaccard (name_words (name us)) (name_words (name them))"
  let ?k = "jaccard (set (keywords_list us)) (set (keywords_list them))"
  have n: "0 \<le> ?n \<and> ?n \<le> 1"
    using jaccard_bounds [of "name_words (name us)" "name_words (name them)"]
    by (simp add: name_words_def)
  have k: "0 \<le> ?k \<and> ?k \<le> 1"
    using jaccard_bounds [of "set (keywords_list us)" "set (keywords_list them)"] by simp
  have "sim_value us them = 6 / 10 * ?n + 4 / 10 * ?k" by (simp add: sim_value_def)
  with n k show ?thesis by linarith
qed

lemma sim_value_commute: "sim_value a b = sim_value b a"
  by (simp add: sim_value_def jaccard_commute eq_commute)

text \<open>
  C1 (as amended). \<^verbatim>\<open>combined_similarity(c, c)\<close> is 1.0 exactly when \<^verbatim>\<open>c\<close> has at least
  one keyword. With an empty keyword list the keyword sub-score is 0.0, by the
  guard of \<^verbatim>\<open>keyword_similarity\<close>, and the result is 0.6.
\<close>

theorem combined_similarity_self:
  "combined_similarity c c = Inr (if keywords_list c = [] then 6 / 10 else 1)"
  by (simp add: combined_similarity_value sim_value_def jaccard_self) (simp add: jaccard_def)

theorem combined_similarity_self_witness:
  "combined_similarity (component ''skill'' ''pdf-export'' [''pdf''])
     (component ''skill'' ''pdf-export'' [''pdf'']) = Inr 1
   \<and> combined_similarity (component ''skill'' ''pdf-export'' [])
       (component ''skill'' ''pdf-export'' []) = Inr (6 / 10)"
  using combined_similarity_self [of "component ''skill'' ''pdf-export'' [''pdf'']"]
    combined_similarity_self [of "component ''skill'' ''pdf-export'' []"]
  by (simp add: component_def)

text \<open>
  C1 as stated fails: a component without keywords has similarity 0.6 with itself.
\<close>

theorem combined_similarity_self_counterexample:
  "combined_similarity (component ''skill'' ''pdf-export'' [])
     (component ''skill'' ''pdf-export'' []) \<noteq> Inr 1"
  by (simp add: combined_similarity_def name_similarity_jaccard keyword_similarity_def
      component_def)

text \<open>
  C7. \<^verbatim>\<open>combined_similarity\<close> never raises and its value lies in [0, 1]. Neither
  sub-score raises either: the name sub-score is 0 when a name has no words (the
  exact-name equality then overrides it with 1), and the keyword sub-score is 0 when a
  keyword list is empty. No division by zero occurs: every result is a value, not
  \<open>ZeroDivisionError\<close>.
\<close>

theorem combined_similarity_bounded:
  "\<exists>ns ks v.
     name_similarity (name a) (name b) = Inr ns
     \<and> keyword_similarity (keywords_list a) (keywords_list b) = Inr ks
     \<and> combined_similarity a b = Inr v
     \<and> 0 \<le> ns \<and> ns \<le> 1 \<and> 0 \<le> ks \<and> ks \<le> 1 \<and> 0 \<le> v \<and> v \<le> 1
     \<and> (name_words (name a) = {} \<or> name_words (name b) = {} \<longrightarrow> ns = 0)
     \<and> (keywords_list a = [] \<or> keywords_list b = [] \<longrightarrow> ks = 0)
     \<and> v = 6 / 10 * (if name a = name b then 1 else ns) + 4 / 10 * ks"
proof -
  let ?ns = "jaccard (name_words (name a)) (name_words (name b))"
  let ?ks = "jaccard (set (keywords_list a)) (set (keywords_list b))"
  have ns: "0 \<le> ?ns \<and> ?ns \<le> 1"
    by (rule jaccard_bounds) (simp_all add: name_words_def)
  have ks: "0 \<le> ?ks \<and> ?ks \<le> 1"
    by (rule jaccard_bounds) simp_all
  have e1: "name_words (name a) = {} \<or> name_words (name b) = {} \<longrightarrow> ?ns = 0"
    by (auto simp: jaccard_def)
  have e2: "keywords_list a = [] \<or> keywords_list b = [] \<longrightarrow> ?ks = 0"
    by (auto simp: jaccard_def)
  have v: "sim_value a b = 6 / 10 * (if name a = name b then 1 else ?ns) + 4 / 10 * ?ks"
    by (simp add: sim_value_def)
  show ?thesis
    using ns ks e1 e2 v sim_value_bounds [of a b]
    by (intro exI [of _ ?ns] exI [of _ ?ks] exI [of _ "sim_value a b"])
       (simp add: name_similarity_jaccard keyword_similarity_jaccard combined_similarity_value)
qed

theorem combined_similarity_bounded_witness:
  "name_words (name (component ''skill'' ''-_'' [])) = {}
   \<and> keywords_list (component ''skill'' ''-_'' []) = []
   \<and> name_similarity (name (component ''skill'' ''-_'' []))
        (name (component ''skill'' ''tool'' [''x''])) = Inr 0
   \<and> keyword_similarity (keywords_list (component ''skill'' ''-_'' []))
        (keywords_list (component ''skill'' ''tool'' [''x''])) = Inr 0
   \<and> combined_similarity (component ''skill'' ''-_'' [])
        (component ''skill'' ''tool'' [''x'']) = Inr 0"
proof -
  let ?a = "component ''skill'' ''-_'' []"
  let ?b = "component ''skill'' ''tool'' [''x'']"
  have h1: "name_words (name ?a) = {}"
    unfolding component_def by code_simp
  have h2: "keywords_list ?a = []"
    by (simp add: component_def)
  have h3: "name ?a \<noteq> name ?b"
    by (simp add: component_def)
  from combined_similarity_bounded [of ?a ?b]
  obtain ns ks v where
    "name_similarity (name ?a) (name ?b) = Inr ns"
    "keyword_similarity (keywords_list ?a) (keywords_list ?b) = Inr ks"
    "combined_similarity ?a ?b = Inr v"
    "name_words (name ?a) = {} \<or> name_words (name ?b) = {} \<longrightarrow> ns = 0"
    "keywords_list ?a = [] \<or> keywords_list ?b = [] \<longrightarrow> ks = 0"
    "v = 6 / 10 * (if name ?a = name ?b then 1 else ns) + 4 / 10 * ks"
    by blast
  with h1 h2 h3 show ?thesis by simp
qed

text \<open>
  C8. \<^verbatim>\<open>combined_similarity\<close> is symmetric in its two components.
\<close>

theorem combined_similarity_symmetric:
  "combined_similarity a b = combined_similarity b a"
  by (simp add: combined_similarity_value sim_value_commute)

section \<open>Properties of the comparison engine\<close>


















section \<open>Properties of the frontmatter parser\<close>

lemma dropWhile_replicate_append: "dropWhile (\<lambda>x. x = c) (replicate i c @ xs) = dropWhile (\<lambda>x. x = c) xs"
  by (induction i) simp_all

lemma strip_chr_layers: "strip_chr c (replicate i c @ s @ replicate j c) = strip_chr c s"
proof (cases "\<forall>x \<in> set s. x = c")
  case True
  then have a: "dropWhile (\<lambda>x. x = c) (s @ replicate j c) = []"
    and b: "dropWhile (\<lambda>x. x = c) s = []"
    by (simp_all add: dropWhile_eq_Nil_conv)
  show ?thesis
    unfolding strip_chr_def dropWhile_replicate_append a b by simp
next
  case False
  then obtain x where "x \<in> set s" "x \<noteq> c" by blast
  then have a: "dropWhile (\<lambda>x. x = c) (s @ replicate j c) = dropWhile (\<lambda>x. x = c) s @ replicate j c"
    by (simp add: dropWhile_append1)
  show ?thesis
    unfolding strip_chr_def dropWhile_replicate_append a
    by (simp add: dropWhile_replicate_append)
qed

lemma strip_chr_id:
  assumes "s \<noteq> []" "hd s \<noteq> c" "last s \<noteq> c"
  shows "strip_chr c s = s"
proof -
  have 1: "dropWhile (\<lambda>x. x = c) s = s"
    using assms by (cases s) simp_all
  have 2: "dropWhile (\<lambda>x. x = c) (rev s) = rev s"
    using assms by (cases "rev s") (simp_all add: last_rev [symmetric] hd_rev)
  show ?thesis by (simp add: strip_chr_def 1 2)
qed

lemma strip_quotes_layers:
  assumes "core \<noteq> []" "hd core \<noteq> dquote" "hd core \<noteq> squote"
    "last core \<noteq> dquote" "last core \<noteq> squote"
  shows "strip_chr squote (strip_chr dquote
           (replicate i dquote @ replicate j squote @ core @ replicate j' squote @ replicate i' dquote))
         = core"
proof -
  let ?mid = "replicate j squote @ core @ replicate j' squote"
  have ne: "?mid \<noteq> []" using assms by simp
  have h: "hd ?mid \<noteq> dquote"
    using assms by (cases j) (simp_all add: hd_append)
  have l: "last ?mid \<noteq> dquote"
    using assms by (cases j') (simp_all add: last_append)
  have "strip_chr dquote (replicate i dquote @ ?mid @ replicate i' dquote) = strip_chr dquote ?mid"
    by (rule strip_chr_layers)
  also have "\<dots> = ?mid" by (rule strip_chr_id [OF ne h l])
  finally have "strip_chr squote (strip_chr dquote (replicate i dquote @ ?mid @ replicate i' dquote))
      = strip_chr squote ?mid" by simp
  also have "\<dots> = strip_chr squote core" by (rule strip_chr_layers)
  also have "\<dots> = core" using assms by (intro strip_chr_id)
  finally show ?thesis by simp
qed

lemma partition_chr_first:
  "c \<notin> set k \<Longrightarrow> partition_chr c (k @ c # v) = (k, v)"
  by (induction k) (auto simp: partition_chr_def)

lemma fm_line_key_value:
  assumes "strip_ws row = k @ CHR '':'' # v" "CHR '':'' \<notin> set k" "\<not> starts_with ''#'' k"
  shows "fm_line result row
         = dict_set (strip_ws k) (strip_chr squote (strip_chr dquote (strip_ws v))) result"
proof -
  have "\<not> starts_with ''#'' (k @ CHR '':'' # v)"
    using assms(3) by (cases k) (simp_all add: starts_with_def)
  then show ?thesis
    using assms(1,2) by (simp add: fm_line_def partition_chr_first)
qed

lemma fm_line_other: "fm_key row \<noteq> Some key \<Longrightarrow> map_of (fm_line d row) key = map_of d key"
  by (auto simp: fm_key_def fm_line_def Let_def dict_set_def update_conv' split: prod.splits)

lemma fm_lines_other:
  "\<forall>r \<in> set rows. fm_key r \<noteq> Some key \<Longrightarrow> map_of (foldl fm_line d rows) key = map_of d key"
  by (induction rows arbitrary: d) (simp_all add: fm_line_other)

text \<open>
  C9 (as amended). Take any line of the frontmatter block that has a colon, is not a
  comment, and whose key no later line assigns again. The mapping returned by
  \<^verbatim>\<open>parse_frontmatter\<close> holds for its key the text after the first colon with the
  surrounding whitespace removed, then every leading and trailing double-quote
  character removed, then every leading and trailing single-quote character removed.
  So a value wrapped in any number of double-quote layers around any number of
  single-quote layers comes back without any of them.
\<close>

theorem parse_frontmatter_value:
  assumes "re_match FM_flags FM_RE text = Some body"
    and "splitlines body = ls @ row # rest"
    and "strip_ws row = k @ CHR '':'' # v"
    and "CHR '':'' \<notin> set k"
    and "\<not> starts_with ''#'' k"
    and "\<forall>r \<in> set rest. fm_key r \<noteq> Some (strip_ws k)"
  shows "map_of (parse_frontmatter text) (strip_ws k)
           = Some (strip_chr squote (strip_chr dquote (strip_ws v)))
         \<and> (\<forall>i j j' i' core.
               strip_ws v = replicate i dquote @ replicate j squote @ core
                              @ replicate j' squote @ replicate i' dquote
               \<and> core \<noteq> [] \<and> hd core \<notin> {dquote, squote} \<and> last core \<notin> {dquote, squote}
               \<longrightarrow> map_of (parse_frontmatter text) (strip_ws k) = Some core)"
proof -
  have "parse_frontmatter text = foldl fm_line (fm_line (foldl fm_line [] ls) row) rest"
    using assms(1,2) by (simp add: parse_frontmatter_def)
  then have "map_of (parse_frontmatter text) (strip_ws k)
      = map_of (fm_line (foldl fm_line [] ls) row) (strip_ws k)"
    using fm_lines_other [OF assms(6)] by simp
  then have val: "map_of (parse_frontmatter text) (strip_ws k)
      = Some (strip_chr squote (strip_chr dquote (strip_ws v)))"
    by (simp add: fm_line_key_value [OF assms(3,4,5)] dict_set_def update_conv')
  show ?thesis
    unfolding val using strip_quotes_layers by auto
qed

theorem parse_frontmatter_value_witness:
  "map_of (parse_frontmatter (fm_doc ([dquote, dquote, squote] @ ''abc'' @ [squote, dquote, dquote])))
     ''name'' = Some ''abc''"
proof -
  let ?v = "[dquote, dquote, squote] @ ''abc'' @ [squote, dquote, dquote]"
  let ?line = "''name: '' @ ?v"
  have a1: "re_match FM_flags FM_RE (fm_doc ?v) = Some (?line @ [nl] @ ''other: x'' @ [nl])"
    by code_simp
  have a2: "splitlines (?line @ [nl] @ ''other: x'' @ [nl]) = [] @ ?line # [''other: x'']"
    by code_simp
  have a3: "strip_ws ?line = ''name'' @ CHR '':'' # (CHR '' '' # ?v)"
    by code_simp
  have a4: "CHR '':'' \<notin> set ''name''" by simp
  have a5: "\<not> starts_with ''#'' ''name''" by (simp add: starts_with_def)
  have a6: "strip_ws (CHR '' '' # ?v)
     = replicate 2 dquote @ replicate 1 squote @ ''abc'' @ replicate 1 squote @ replicate 2 dquote"
    by code_simp
  have a7: "strip_ws ''name'' = ''name''" by code_simp
  have "fm_key ''other: x'' \<noteq> Some (strip_ws ''name'')" by code_simp
  then have a8: "\<forall>r \<in> set [''other: x'']. fm_key r \<noteq> Some (strip_ws ''name'')" by simp
  from parse_frontmatter_value [OF a1 a2 a3 a4 a5 a8] a6 a7
  have "''abc'' \<noteq> [] \<and> hd ''abc'' \<notin> {dquote, squote} \<and> last ''abc'' \<notin> {dquote, squote}
    \<longrightarrow> map_of (parse_frontmatter (fm_doc ?v)) ''name'' = Some ''abc''"
    by metis
  then show ?thesis by simp
qed

text \<open>
  C9 as stated fails: the value \<^verbatim>\<open>""abc""\<close> is returned as \<^verbatim>\<open>abc\<close>, not as \<^verbatim>\<open>"abc"\<close>.
\<close>

theorem parse_frontmatter_layers_counterexample:
  "map_of (parse_frontmatter (fm_doc ([dquote, dquote] @ ''abc'' @ [dquote, dquote]))) ''name''
     = Some ''abc''
   \<and> strip_one_layer ([dquote, dquote] @ ''abc'' @ [dquote, dquote]) = [dquote] @ ''abc'' @ [dquote]
   \<and> map_of (parse_frontmatter (fm_doc ([dquote, dquote] @ ''abc'' @ [dquote, dquote]))) ''name''
     \<noteq> Some (strip_one_layer ([dquote, dquote] @ ''abc'' @ [dquote, dquote]))"
  by code_simp

section \<open>Properties of the keyword extractor\<close>

lemma lower_char_idem: "lower_char (lower_char c) = lower_char c"
  by (cases c) (auto simp: lower_char_def less_eq_char_def)

lemma lower_idem: "lower (lower s) = lower s"
  by (simp add: lower_def lower_char_idem)

lemma lower_alnum_fixed: "is_lower_alnum c \<Longrightarrow> lower_char c = c"
  by (auto simp: is_lower_alnum_def lower_char_def less_eq_char_def)

lemma lower_filter_alnum: "lower (filter is_lower_alnum w) = filter is_lower_alnum w"
  by (induction w) (simp_all add: lower_def lower_alnum_fixed)

lemma canonical_fold:
  assumes "\<And>x A. canonical A \<Longrightarrow> canonical (f x A)" and "canonical A"
  shows "canonical (fold f xs A)"
  using assms(2) by (induction xs arbitrary: A) (simp_all add: assms(1))

lemma canonical_name_part: "canonical A \<Longrightarrow> canonical (name_part part A)"
  by (simp add: canonical_def name_part_def lower_idem)

lemma canonical_heading_word: "canonical A \<Longrightarrow> canonical (heading_word w A)"
  by (simp add: canonical_def heading_word_def Let_def lower_filter_alnum)

lemma canonical_trigger_word: "canonical A \<Longrightarrow> canonical (trigger_word w A)"
  by (simp add: canonical_def trigger_word_def Let_def lower_idem)

lemma canonical_keywords:
  "canonical
     (fold (\<lambda>g. fold trigger_word (split_on (CHR '','') g)) gs2
        (fold (\<lambda>g. fold heading_word (split_ws (lower (strip_ws g)))) gs1
           (fold name_part parts {})))"
proof -
  have 0: "canonical {}" by (simp add: canonical_def)
  have 1: "canonical (fold name_part parts {})"
    using 0 by (rule canonical_fold [rotated]) (rule canonical_name_part)
  have 2: "canonical (fold (\<lambda>g. fold heading_word (split_ws (lower (strip_ws g)))) gs1
           (fold name_part parts {}))"
    using 1 by (rule canonical_fold [rotated]) (rule canonical_fold, rule canonical_heading_word)
  show ?thesis
    using 2 by (rule canonical_fold [rotated]) (rule canonical_fold, rule canonical_trigger_word)
qed

text \<open>
  C10. The list returned by \<^verbatim>\<open>extract_keywords\<close> is sorted in ascending string order,
  has no duplicates, and every keyword in it is lowercase (lowering it changes nothing).
\<close>

theorem extract_keywords_canonical:
  "sorted (extract_keywords text nm)
   \<and> distinct (extract_keywords text nm)
   \<and> (\<forall>w \<in> set (extract_keywords text nm). lower w = w)"
  using canonical_keywords
    [of "finditer trigger_flags trigger_re None text" "finditer heading_flags heading_re None text"
        "split_ws (replace_chr (CHR ''-'') (CHR '' '') nm)"]
  by (simp add: extract_keywords_def Let_def canonical_def)

theorem extract_keywords_canonical_witness:
  "extract_keywords (''## Quick Start'' @ [nl] @ ''Triggers: Zeta, alpha'') ''Fix-Bug''
     = [''alpha'', ''bug'', ''fix'', ''quick'', ''start'', ''zeta'']
   \<and> sorted [''alpha'', ''bug'', ''fix'', ''quick'', ''start'', ''zeta'']
   \<and> distinct [''alpha'', ''bug'', ''fix'', ''quick'', ''start'', ''zeta'']
   \<and> lower ''zeta'' = ''zeta''"
proof -
  have run: "extract_keywords (''## Quick Start'' @ [nl] @ ''Triggers: Zeta, alpha'') ''Fix-Bug''
     = [''alpha'', ''bug'', ''fix'', ''quick'', ''start'', ''zeta'']"
    by code_simp
  from extract_keywords_canonical
    [of "''## Quick Start'' @ [nl] @ ''Triggers: Zeta, alpha''" "''Fix-Bug''"]
  show ?thesis unfolding run by simp
qed

text \<open>
  C2. \<^verbatim>\<open>extract_keywords\<close> replaces only the hyphen before splitting the name, so a name
  with underscores is kept whole: \<^verbatim>\<open>data_pipeline\<close> yields the one keyword
  \<^verbatim>\<open>data_pipeline\<close>, where \<^verbatim>\<open>name_similarity\<close> splits the same name into \<^verbatim>\<open>data\<close> and
  \<^verbatim>\<open>pipeline\<close>.
\<close>

theorem extract_keywords_underscore:
  "extract_keywords [] ''data_pipeline'' = [''data_pipeline'']
   \<and> name_words ''data_pipeline'' = {''data'', ''pipeline''}"
  by code_simp

section \<open>Properties of the catalog store\<close>

lemma str_items_JStr: "str_items key (map JStr xs) = Inr xs"
  by (induction xs) (simp_all add: bind_err_def)

lemma component_of_record: "component_of (component_record c) = Inr (c\<lparr>frontmatter := []\<rparr>)"
  by (simp add: component_record_def subscript_def get_or_def make_component_def bind_err_def
      str_items_JStr)

lemma load_all_records:
  "load_all (map component_record cs) = Inr (map (\<lambda>c. c\<lparr>frontmatter := []\<rparr>) cs)"
  by (induction cs) (simp_all add: component_of_record bind_err_def)

lemma load_save:
  "load_catalog p (save_catalog cs p fs) = Inr (map (\<lambda>c. c\<lparr>frontmatter := []\<rparr>) cs)"
  by (simp add: load_catalog_def save_catalog_def load_all_records)

lemma str_items_ok: "list_all is_str vs \<Longrightarrow> \<exists>ss. str_items key vs = Inr ss"
proof (induction vs)
  case Nil
  then show ?case by simp
next
  case (Cons v vs)
  then show ?case by (cases v) (auto simp: is_str_def bind_err_def)
qed

lemma opt_str:
  "absent_or is_str d key \<Longrightarrow>
   \<exists>s. as_str key (get_or d key (JStr [])) = Inr s \<and> (map_of d key = None \<longrightarrow> s = [])"
  by (auto simp: absent_or_def get_or_def is_str_def split: option.splits json.splits)

lemma opt_int:
  "absent_or is_int d key \<Longrightarrow>
   \<exists>i. as_int key (get_or d key (JInt 0)) = Inr i \<and> (map_of d key = None \<longrightarrow> i = 0)"
  by (auto simp: absent_or_def get_or_def is_int_def split: option.splits json.splits)

lemma opt_bool:
  "absent_or is_bool d key \<Longrightarrow>
   \<exists>b. as_bool key (get_or d key (JBool False)) = Inr b \<and> (map_of d key = None \<longrightarrow> b = False)"
  by (auto simp: absent_or_def get_or_def is_bool_def split: option.splits json.splits)

lemma opt_str_list:
  "absent_or is_str_list d key \<Longrightarrow>
   \<exists>ss. as_str_list key (get_or d key (JArr [])) = Inr ss \<and> (map_of d key = None \<longrightarrow> ss = [])"
  using str_items_ok
  by (auto simp: absent_or_def get_or_def is_str_list_def split: option.splits json.splits)

lemma component_of_defaults:
  assumes "map_of d ''kind'' = Some (JStr k)" "map_of d ''name'' = Some (JStr n)"
    "map_of d ''repo'' = Some (JStr r)" "map_of d ''path'' = Some (JStr p)"
    "absent_or is_str d ''description''" "absent_or is_str_list d ''keywords''"
    "absent_or is_int d ''line_count''" "absent_or is_bool d ''has_references''"
    "absent_or is_str_list d ''reference_files''"
  shows "\<exists>c. component_of (JObj d) = Inr c
     \<and> kind c = k \<and> name c = n \<and> repo c = r \<and> path c = p \<and> frontmatter c = []
     \<and> (map_of d ''description'' = None \<longrightarrow> description c = [])
     \<and> (map_of d ''keywords'' = None \<longrightarrow> keywords_list c = [])
     \<and> (map_of d ''line_count'' = None \<longrightarrow> line_count c = 0)
     \<and> (map_of d ''has_references'' = None \<longrightarrow> has_references c = False)
     \<and> (map_of d ''reference_files'' = None \<longrightarrow> reference_files c = [])"
proof -
  from opt_str [OF assms(5)] obtain ds where
    1: "as_str ''description'' (get_or d ''description'' (JStr [])) = Inr ds"
       "map_of d ''description'' = None \<longrightarrow> ds = []" by auto
  from opt_str_list [OF assms(6)] obtain kws where
    2: "as_str_list ''keywords'' (get_or d ''keywords'' (JArr [])) = Inr kws"
       "map_of d ''keywords'' = None \<longrightarrow> kws = []" by auto
  from opt_int [OF assms(7)] obtain lc where
    3: "as_int ''line_count'' (get_or d ''line_count'' (JInt 0)) = Inr lc"
       "map_of d ''line_count'' = None \<longrightarrow> lc = 0" by auto
  from opt_bool [OF assms(8)] obtain hr where
    4: "as_bool ''has_references'' (get_or d ''has_references'' (JBool False)) = Inr hr"
       "map_of d ''has_references'' = None \<longrightarrow> hr = False" by auto
  from opt_str_list [OF assms(9)] obtain rfs where
    5: "as_str_list ''reference_files'' (get_or d ''reference_files'' (JArr [])) = Inr rfs"
       "map_of d ''reference_files'' = None \<longrightarrow> rfs = []" by auto
  have "component_of (JObj d)
      = Inr \<lparr>kind = k, name = n, repo = r, path = p, description = ds, keywords_list = kws,
            frontmatter = [], line_count = lc, has_references = hr, reference_files = rfs\<rparr>"
    using assms(1-4) 1(1) 2(1) 3(1) 4(1) 5(1)
    by (simp add: subscript_def make_component_def bind_err_def)
  then show ?thesis using 1(2) 2(2) 3(2) 4(2) 5(2) by simp
qed

lemma component_of_missing:
  assumes "map_of d ''kind'' = None \<or> map_of d ''name'' = None
     \<or> map_of d ''repo'' = None \<or> map_of d ''path'' = None"
  shows "\<exists>key \<in> {''kind'', ''name'', ''repo'', ''path''}.
           map_of d key = None \<and> component_of (JObj d) = Inl (KeyError key)"
  using assms
  by (auto simp: subscript_def bind_err_def split: option.splits)

text \<open>
  C6. Loading the catalog that \<^verbatim>\<open>save_catalog\<close> wrote gives back the component list,
  equal on every field but \<^verbatim>\<open>frontmatter\<close>, which is the empty mapping. A record that
  has the four keys \<^verbatim>\<open>kind\<close>, \<^verbatim>\<open>name\<close>, \<^verbatim>\<open>repo\<close> and \<^verbatim>\<open>path\<close> loads whatever optional keys
  it lacks, each missing one defaulted to the empty string, the empty list, 0 or false; a
  record that lacks one of the four raises \<^verbatim>\<open>KeyError\<close> for it.
\<close>

theorem catalog_round_trip:
  "load_catalog p (save_catalog cs p fs) = Inr (map (\<lambda>c. c\<lparr>frontmatter := []\<rparr>) cs)
   \<and> (\<forall>d k n r pa.
         map_of d ''kind'' = Some (JStr k) \<and> map_of d ''name'' = Some (JStr n)
         \<and> map_of d ''repo'' = Some (JStr r) \<and> map_of d ''path'' = Some (JStr pa)
         \<and> absent_or is_str d ''description'' \<and> absent_or is_str_list d ''keywords''
         \<and> absent_or is_int d ''line_count'' \<and> absent_or is_bool d ''has_references''
         \<and> absent_or is_str_list d ''reference_files''
         \<longrightarrow> (\<exists>c. component_of (JObj d) = Inr c
                \<and> kind c = k \<and> name c = n \<and> repo c = r \<and> path c = pa \<and> frontmatter c = []
                \<and> (map_of d ''description'' = None \<longrightarrow> description c = [])
                \<and> (map_of d ''keywords'' = None \<longrightarrow> keywords_list c = [])
                \<and> (map_of d ''line_count'' = None \<longrightarrow> line_count c = 0)
                \<and> (map_of d ''has_references'' = None \<longrightarrow> has_references c = False)
                \<and> (map_of d ''reference_files'' = None \<longrightarrow> reference_files c = [])))
   \<and> (\<forall>d. map_of d ''kind'' = None \<or> map_of d ''name'' = None
            \<or> map_of d ''repo'' = None \<or> map_of d ''path'' = None
         \<longrightarrow> (\<exists>key \<in> {''kind'', ''name'', ''repo'', ''path''}.
                map_of d key = None \<and> component_of (JObj d) = Inl (KeyError key)))"
proof (intro conjI allI impI)
  show "load_catalog p (save_catalog cs p fs) = Inr (map (\<lambda>c. c\<lparr>frontmatter := []\<rparr>) cs)"
    by (rule load_save)
next
  fix d k n r pa
  assume "map_of d ''kind'' = Some (JStr k) \<and> map_of d ''name'' = Some (JStr n)
         \<and> map_of d ''repo'' = Some (JStr r) \<and> map_of d ''path'' = Some (JStr pa)
         \<and> absent_or is_str d ''description'' \<and> absent_or is_str_list d ''keywords''
         \<and> absent_or is_int d ''line_count'' \<and> absent_or is_bool d ''has_references''
         \<and> absent_or is_str_list d ''reference_files''"
  then show "\<exists>c. component_of (JObj d) = Inr c
                \<and> kind c = k \<and> name c = n \<and> repo c = r \<and> path c = pa \<and> frontmatter c = []
                \<and> (map_of d ''description'' = None \<longrightarrow> description c = [])
                \<and> (map_of d ''keywords'' = None \<longrightarrow> keywords_list c = [])
                \<and> (map_of d ''line_count'' = None \<longrightarrow> line_count c = 0)
                \<and> (map_of d ''has_references'' = None \<longrightarrow> has_references c = False)
                \<and> (map_of d ''reference_files'' = None \<longrightarrow> reference_files c = [])"
    by (intro component_of_defaults) simp_all
next
  fix d :: "(string \<times> json) list"
  assume "map_of d ''kind'' = None \<or> map_of d ''name'' = None
            \<or> map_of d ''repo'' = None \<or> map_of d ''path'' = None"
  then show "\<exists>key \<in> {''kind'', ''name'', ''repo'', ''path''}.
                map_of d key = None \<and> component_of (JObj d) = Inl (KeyError key)"
    by (rule component_of_missing)
qed

theorem catalog_round_trip_witness:
  "load_catalog ''ours.json''
     (save_catalog [(component ''skill'' ''pdf-export'' [''pdf''])\<lparr>frontmatter := [(''name'', ''pdf-export'')]\<rparr>]
        ''ours.json'' Map.empty)
   = Inr [component ''skill'' ''pdf-export'' [''pdf'']]
   \<and> (\<exists>c. component_of (JObj old_record) = Inr c
         \<and> kind c = ''skill'' \<and> name c = ''pdf-export'' \<and> line_count c = 12
         \<and> description c = [] \<and> keywords_list c = [] \<and> has_references c = False
         \<and> reference_files c = [] \<and> frontmatter c = [])
   \<and> component_of (JObj (tl old_record)) = Inl (KeyError ''kind'')"
proof -
  let ?c = "(component ''skill'' ''pdf-export'' [''pdf''])\<lparr>frontmatter := [(''name'', ''pdf-export'')]\<rparr>"
  note rt = catalog_round_trip [of "''ours.json''" "[?c]" Map.empty]
  have 1: "load_catalog ''ours.json'' (save_catalog [?c] ''ours.json'' Map.empty)
      = Inr [component ''skill'' ''pdf-export'' [''pdf'']]"
    using rt by (simp add: component_def)
  have pre: "map_of old_record ''kind'' = Some (JStr ''skill'')
         \<and> map_of old_record ''name'' = Some (JStr ''pdf-export'')
         \<and> map_of old_record ''repo'' = Some (JStr ''r'')
         \<and> map_of old_record ''path'' = Some (JStr ''skills/pdf-export/SKILL.md'')
         \<and> absent_or is_str old_record ''description''
         \<and> absent_or is_str_list old_record ''keywords''
         \<and> absent_or is_int old_record ''line_count''
         \<and> absent_or is_bool old_record ''has_references''
         \<and> absent_or is_str_list old_record ''reference_files''"
    by (simp add: old_record_def absent_or_def is_int_def)
  have absent: "map_of old_record ''description'' = None" "map_of old_record ''keywords'' = None"
    "map_of old_record ''has_references'' = None" "map_of old_record ''reference_files'' = None"
    by (simp_all add: old_record_def)
  have "\<exists>c. component_of (JObj old_record) = Inr c
         \<and> kind c = ''skill'' \<and> name c = ''pdf-export'' \<and> repo c = ''r''
         \<and> path c = ''skills/pdf-export/SKILL.md'' \<and> frontmatter c = []
         \<and> (map_of old_record ''description'' = None \<longrightarrow> description c = [])
         \<and> (map_of old_record ''keywords'' = None \<longrightarrow> keywords_list c = [])
         \<and> (map_of old_record ''line_count'' = None \<longrightarrow> line_count c = 0)
         \<and> (map_of old_record ''has_references'' = None \<longrightarrow> has_references c = False)
         \<and> (map_of old_record ''reference_files'' = None \<longrightarrow> reference_files c = [])"
    by (rule rt [THEN conjunct2, THEN conjunct1, rule_format, OF pre])
  then obtain c where c: "component_of (JObj old_record) = Inr c
         \<and> kind c = ''skill'' \<and> name c = ''pdf-export'' \<and> repo c = ''r''
         \<and> path c = ''skills/pdf-export/SKILL.md'' \<and> frontmatter c = []
         \<and> (map_of old_record ''description'' = None \<longrightarrow> description c = [])
         \<and> (map_of old_record ''keywords'' = None \<longrightarrow> keywords_list c = [])
         \<and> (map_of old_record ''line_count'' = None \<longrightarrow> line_count c = 0)
         \<and> (map_of old_record ''has_references'' = None \<longrightarrow> has_references c = False)
         \<and> (map_of old_record ''reference_files'' = None \<longrightarrow> reference_files c = [])" ..
  have "component_of (JObj old_record)
      = Inr \<lparr>kind = ''skill'', name = ''pdf-export'', repo = ''r'',
             path = ''skills/pdf-export/SKILL.md'', description = [], keywords_list = [],
             frontmatter = [], line_count = 12, has_references = False, reference_files = []\<rparr>"
    by (simp add: old_record_def subscript_def get_or_def make_component_def bind_err_def)
  with c have "c = \<lparr>kind = ''skill'', name = ''pdf-export'', repo = ''r'',
             path = ''skills/pdf-export/SKILL.md'', description = [], keywords_list = [],
             frontmatter = [], line_count = 12, has_references = False, reference_files = []\<rparr>"
    by simp
  then have lc: "line_count c = 12" by simp
  have "component_of (JObj old_record) = Inr c
         \<and> kind c = ''skill'' \<and> name c = ''pdf-export'' \<and> line_count c = 12
         \<and> description c = [] \<and> keywords_list c = [] \<and> has_references c = False
         \<and> reference_files c = [] \<and> frontmatter c = []"
    using c absent lc by simp
  then have 2: "\<exists>c. component_of (JObj old_record) = Inr c
         \<and> kind c = ''skill'' \<and> name c = ''pdf-export'' \<and> line_count c = 12
         \<and> description c = [] \<and> keywords_list c = [] \<and> has_references c = False
         \<and> reference_files c = [] \<and> frontmatter c = []" ..
  have 3: "component_of (JObj (tl old_record)) = Inl (KeyError ''kind'')"
    by (simp add: old_record_def subscript_def bind_err_def)
  from 1 2 3 show ?thesis by (intro conjI)
qed

section \<open>Properties of the report generator\<close>

text \<open>
  C3. With the kind filter \<^verbatim>\<open>skill\<close> and one external repository that holds a single
  agent, the summary line of the repository counts 0 skills and 0 agents, but the
  statistics section reports 1 external component: \<^verbatim>\<open>total_ext\<close> sums the unfiltered
  lists, where every other count of the report is taken after the filter.
\<close>

theorem report_statistics_unfiltered:
  "generate_report now fmt [] [(''ext'', [component ''agent'' ''helper'' []])] [] []
     (Some ''skill'')
   = join [nl]
      [''# Repo Comparison Report'',
       [],
       ''Generated: '' @ now,
       [],
       ''## Our Plugin Inventory'',
       [],
       ''## External Repos Scanned'',
       [],
       ''- **ext**: 0 skills, 0 agents'',
       [],
       ''## Overlapping Components (0 matches)'',
       [],
       ''## Unmatched External Components (0 items)'',
       [],
       ''These exist in external repos but have no counterpart in our plugin.'',
       [],
       ''## Statistics'',
       [],
       ''- Our components: 0'',
       ''- External components scanned: 1'',
       ''- Overlapping matches: 0'',
       ''- High-similarity (>=0.50): 0'',
       ''- Unmatched external: 0'',
       []]
   \<and> length (filter (\<lambda>c. kind c = ''skill'') [component ''agent'' ''helper'' []]) = 0"
proof -
  have n0: "show_nat 0 = ''0''" by code_simp
  have n1: "show_nat (Suc 0) = ''1''" by code_simp
  show ?thesis
    by (simp add: generate_report_def report_lines_def inventory_section_def repo_summary_def
        kept_kind_def component_def n0 n1)
qed

end
